theory Spec2Isabelle
  imports Main
begin

section \<open>Values\<close>

text \<open>
  The breeding service (\<^verbatim>\<open>BreedingService\<close>, file \<^verbatim>\<open>src/unnamed/part_005\<close>) works
  on a PostgreSQL store through \<^verbatim>\<open>DatabaseHelper.executeQuery\<close>. Every query of the
  service is embedded as the list operation it denotes on the table it reads or writes.

  Identifiers produced by \<^verbatim>\<open>uuidv4()\<close> are natural numbers drawn from a counter kept
  in the store; pig ids are the strings of the \<^verbatim>\<open>pig_id\<close> column. A point in time (a
  \<^verbatim>\<open>dayjs\<close> value or a JavaScript \<^verbatim>\<open>Date\<close>) is the number of milliseconds since the
  epoch. \<^verbatim>\<open>getUTCDateString\<close> formats the UTC calendar day of such a point as
  \<^verbatim>\<open>YYYY-MM-DD\<close>; that string is represented by the number of the day. The suffix
  \<^verbatim>\<open>T00:00:00Z\<close> that the service appends names the same day at UTC midnight and is
  not represented separately.
\<close>

type_synonym uuid = nat
type_synonym pig_id = string
type_synonym instant = int
type_synonym utc_date = int

definition day_ms :: int where
  "day_ms = 86400000"

text \<open>\<^verbatim>\<open>x.add(n, "day")\<close> on a \<^verbatim>\<open>dayjs\<close> value (no daylight-saving shift: the values
  are in UTC mode, and the default zone of the service has none).\<close>

definition add_days :: "instant \<Rightarrow> int \<Rightarrow> instant" where
  "add_days t n = t + n * day_ms"

definition getUTCDateString :: "instant \<Rightarrow> utc_date" where
  "getUTCDateString t = t div day_ms"

text \<open>
  A column of type \<^verbatim>\<open>DATE\<close> holds a calendar day. A point in time written to such a
  column is stored as its day (the time of day is dropped), and a day read back is handed
  to the service as a \<^verbatim>\<open>Date\<close> at midnight of that day. The server process and the
  database session are taken to run in UTC, the zone in which the service does its own
  day arithmetic.
\<close>

definition stored_date :: "instant \<Rightarrow> utc_date" where
  "stored_date t = t div day_ms"

definition read_date :: "utc_date \<Rightarrow> instant" where
  "read_date d = d * day_ms"

text \<open>
  A JavaScript template literal is the list of its parts: literal text, an interpolated
  identifier, an interpolated number, or a date rendered by \<^verbatim>\<open>formatLocalDate\<close>.
\<close>

datatype part = Lit string | Id uuid | Num nat | LocalDate instant

type_synonym template = "part list"

text \<open>A date received in a request body: missing (\<^verbatim>\<open>undefined\<close>, \<^verbatim>\<open>null\<close> or the
  empty string, all falsy), present but rejected by \<^verbatim>\<open>dayjs(...).isValid()\<close>, or
  parsed to a point in time.\<close>

datatype date_in = Absent | Unparseable | Parsed instant

text \<open>JavaScript truthiness of an optional string, and \<^verbatim>\<open>a || b\<close> on such values.\<close>

definition truthy :: "string option \<Rightarrow> bool" where
  "truthy v = (case v of None \<Rightarrow> False | Some x \<Rightarrow> x \<noteq> [])"

definition or_null :: "string option \<Rightarrow> string option" where
  "or_null v = (if truthy v then v else None)"

datatype error = ValidationError template | DatabaseError template

section \<open>Tables\<close>

text \<open>
  One record type per table of the migrations (\<^verbatim>\<open>src/unnamed/part_000\<close>), with the columns
  the service reads or writes; a table is the list of its rows in insertion order. The
  \<^verbatim>\<open>is_deleted\<close> columns (0/1 or boolean) are booleans, nullable columns are options,
  and \<^verbatim>\<open>DATE\<close> columns are calendar days.
  Of the constraints of the schema, the model carries those that decide the outcome of a
  call on input the service itself lets through: \<^verbatim>\<open>birth_date NOT NULL\<close> of
  \<^verbatim>\<open>pig_birth_history\<close> and the \<^verbatim>\<open>CHECK\<close> on \<^verbatim>\<open>piglet_records.gender\<close>. Column
  lengths, numeric ranges and the foreign keys to \<^verbatim>\<open>users\<close> are not represented: text
  is taken to fit its column and the acting user to exist.
\<close>

record farm =
  fm_id :: uuid
  fm_is_deleted :: bool

record pig =
  pg_pig_id :: pig_id
  pg_farm_id :: uuid
  pg_gender :: string
  pg_pen_id :: "uuid option"
  pg_is_pregnant :: bool
  pg_pregnancy_start_date :: "utc_date option"
  pg_expected_birth_date :: "utc_date option"
  pg_actual_birth_date :: "utc_date option"
  pg_is_deleted :: bool

record breeding_record =
  br_id :: uuid
  br_farm_id :: uuid
  br_sow_id :: pig_id
  br_boar_id :: pig_id
  br_mating_date :: utc_date
  br_expected_birth_date :: "utc_date option"
  br_actual_birth_date :: "utc_date option"
  br_number_of_piglets :: "nat option"
  br_notes :: "string option"
  br_alert_date :: "utc_date option"
  br_is_deleted :: bool

record piglet_record =
  pl_id :: uuid
  pl_breeding_record_id :: uuid
  pl_farm_id :: uuid
  pl_piglet_number :: string
  pl_birth_weight :: "nat option"
  pl_gender :: "string option"
  pl_color :: "string option"
  pl_status :: string
  pl_weaning_date :: "utc_date option"
  pl_parent_male_id :: "pig_id option"
  pl_parent_female_id :: "pig_id option"
  pl_notes :: "string option"
  pl_is_deleted :: bool

record birth_history =
  bh_id :: uuid
  bh_farm_id :: uuid
  bh_sow_id :: pig_id
  bh_breeding_record_id :: uuid
  bh_birth_date :: utc_date
  bh_number_of_piglets :: nat
  bh_notes :: "string option"
  bh_is_deleted :: bool

datatype alert_type = Breeding | Birth | OtherType string

datatype severity = Low | Medium | High

datatype status = Pending | Sent | Completed | Rejected

record alert =
  al_id :: uuid
  al_name :: template
  al_start_date :: utc_date
  al_type :: alert_type
  al_severity :: severity
  al_message :: template
  al_status :: status
  al_farm_id :: uuid
  al_user_id :: uuid
  al_pig_id :: "pig_id option"
  al_pen_id :: "uuid option"
  al_notify_on :: "utc_date list"
  al_is_deleted :: bool

record notification =
  nt_id :: uuid
  nt_user_id :: uuid
  nt_type :: string
  nt_title :: string
  nt_message :: template
  nt_data_sow_id :: pig_id
  nt_data_farm_id :: uuid
  nt_priority :: severity
  nt_is_deleted :: bool

record db =
  farms :: "farm list"
  pigs :: "pig list"
  breeding_records :: "breeding_record list"
  piglet_records :: "piglet_record list"
  pig_birth_history :: "birth_history list"
  alerts :: "alert list"
  notifications :: "notification list"
  next_uuid :: nat

section \<open>The alert service\<close>

text \<open>The object passed to \<^verbatim>\<open>AlertService.createAlert\<close>.\<close>

record alert_spec =
  as_farm_id :: uuid
  as_user_id :: uuid
  as_pig_id :: "pig_id option"
  as_pen_id :: "uuid option"
  as_name :: template
  as_start_date :: utc_date
  as_type :: alert_type
  as_severity :: severity
  as_message :: template
  as_notify_on :: "utc_date list"

text \<open>
  Modelled from the spec: \<^verbatim>\<open>AlertService.createAlert\<close> lives in
  \<^verbatim>\<open>alerts.services.js\<close>, which is not among the sources. The specification (section
  4.2) says that it persists a new Alert with status "pending", that it is a side effect
  only, and that it does not fail when the pen is unknown.
\<close>

definition createAlert :: "alert_spec \<Rightarrow> db \<Rightarrow> db" where
  "createAlert a s =
     s\<lparr>alerts := alerts s @
          [\<lparr>al_id = next_uuid s, al_name = as_name a, al_start_date = as_start_date a,
            al_type = as_type a, al_severity = as_severity a, al_message = as_message a,
            al_status = Pending, al_farm_id = as_farm_id a, al_user_id = as_user_id a,
            al_pig_id = as_pig_id a, al_pen_id = as_pen_id a,
            al_notify_on = as_notify_on a, al_is_deleted = False\<rparr>],
       next_uuid := Suc (next_uuid s)\<rparr>"

text \<open>The loops \<^verbatim>\<open>for (const alert of alerts) await AlertService.createAlert(...)\<close>.\<close>

fun createAlerts :: "alert_spec list \<Rightarrow> db \<Rightarrow> db" where
  "createAlerts [] s = s"
| "createAlerts (a # as) s = createAlerts as (createAlert a s)"

section \<open>Queries shared by the operations\<close>

text \<open>\<^verbatim>\<open>SELECT 1 FROM pigs WHERE pig_id = $1 AND farm_id = $2 AND gender = $3 AND is_deleted = 0\<close>\<close>

definition pigs_with_gender :: "db \<Rightarrow> pig_id \<Rightarrow> uuid \<Rightarrow> string \<Rightarrow> pig list" where
  "pigs_with_gender s pid farm g =
     filter (\<lambda>p. pg_pig_id p = pid \<and> pg_farm_id p = farm \<and> pg_gender p = g \<and> \<not> pg_is_deleted p)
       (pigs s)"

text \<open>\<^verbatim>\<open>SELECT pen_id FROM pigs WHERE pig_id = $1 AND farm_id = $2 AND is_deleted = 0\<close>
  followed by \<^verbatim>\<open>penResult.rows[0]?.pen_id\<close>.\<close>

definition pen_of :: "db \<Rightarrow> pig_id \<Rightarrow> uuid \<Rightarrow> uuid option" where
  "pen_of s pid farm =
     (case filter (\<lambda>p. pg_pig_id p = pid \<and> pg_farm_id p = farm \<and> \<not> pg_is_deleted p) (pigs s) of
        [] \<Rightarrow> None
      | p # _ \<Rightarrow> pg_pen_id p)"

text \<open>\<^verbatim>\<open>${pen_id || "unknown"}\<close>\<close>

definition pen_text :: "uuid option \<Rightarrow> part" where
  "pen_text pen = (case pen of None \<Rightarrow> Lit ''unknown'' | Some p \<Rightarrow> Id p)"

text \<open>
  The resolved, live breeding records of a sow, latest birth first:
  \<^verbatim>\<open>WHERE sow_id = $1 AND farm_id = $2 AND actual_birth_date IS NOT NULL AND is_deleted = 0
  ORDER BY actual_birth_date DESC\<close>. Rows with the same birth date keep their table
  order (SQL leaves their order open).
\<close>

definition birth_key :: "breeding_record \<Rightarrow> int" where
  "birth_key r = (case br_actual_birth_date r of None \<Rightarrow> 0 | Some t \<Rightarrow> - t)"

definition resolved_records :: "db \<Rightarrow> pig_id \<Rightarrow> uuid \<Rightarrow> breeding_record list" where
  "resolved_records s sow farm =
     sort_key birth_key
       (filter (\<lambda>r. br_sow_id r = sow \<and> br_farm_id r = farm \<and> br_actual_birth_date r \<noteq> None
                  \<and> \<not> br_is_deleted r)
          (breeding_records s))"

section \<open>Recording a mating: \<^verbatim>\<open>createBreedingRecord\<close>\<close>

record breeding_data =
  bd_farm_id :: "uuid option"
  bd_sow_id :: "string option"
  bd_boar_id :: "string option"
  bd_mating_date :: date_in
  bd_expected_birth_date :: date_in
  bd_notes :: "string option"
  bd_immediate_notify_date :: date_in
  bd_alert_message :: "string option"

text \<open>Lines 107 to 123: the rest period after the sow's latest recorded birth.\<close>

definition served_too_soon :: "db \<Rightarrow> pig_id \<Rightarrow> uuid \<Rightarrow> instant \<Rightarrow> bool" where
  "served_too_soon s sow farm matingDateUTC =
     (case take 1 (resolved_records s sow farm) of
        [] \<Rightarrow> False
      | r # _ \<Rightarrow>
          (case br_actual_birth_date r of
             None \<Rightarrow> False
           | Some actual_birth_date \<Rightarrow>
               (let lastBirth = read_date actual_birth_date;
                    weaningDate = add_days lastBirth 42;
                    oneWeekAfterWeaning = add_days weaningDate 7
                in matingDateUTC < oneWeekAfterWeaning)))"

text \<open>Lines 182 to 224: the nesting-box alert and the five birth-check alerts.\<close>

definition nesting_alert ::
  "uuid \<Rightarrow> uuid \<Rightarrow> pig_id \<Rightarrow> uuid option \<Rightarrow> instant \<Rightarrow> alert_spec" where
  "nesting_alert farm userId sow pen matingDateUTC =
     \<lparr>as_farm_id = farm, as_user_id = userId, as_pig_id = Some sow, as_pen_id = pen,
      as_name = [Lit ''Add Nesting Box for '', Lit sow],
      as_start_date = getUTCDateString (add_days matingDateUTC 110),
      as_type = Breeding, as_severity = High,
      as_message = [Lit ''Add nesting box for pig '', Lit sow, Lit '' on pen '', pen_text pen,
                    Lit '' by '', LocalDate (add_days matingDateUTC 110)],
      as_notify_on = [getUTCDateString (add_days matingDateUTC 109),
                      getUTCDateString (add_days matingDateUTC 110)]\<rparr>"

definition birth_check_alert ::
  "uuid \<Rightarrow> uuid \<Rightarrow> pig_id \<Rightarrow> uuid option \<Rightarrow> instant \<Rightarrow> nat \<Rightarrow> alert_spec" where
  "birth_check_alert farm userId sow pen matingDateUTC i =
     \<lparr>as_farm_id = farm, as_user_id = userId, as_pig_id = Some sow, as_pen_id = pen,
      as_name = [Lit ''Check Birth for '', Lit sow],
      as_start_date = getUTCDateString (add_days matingDateUTC (110 + int i)),
      as_type = Birth, as_severity = High,
      as_message = [Lit ''Check for birth of pig '', Lit sow, Lit '' on pen '', pen_text pen,
                    Lit '' on '', LocalDate (add_days matingDateUTC (110 + int i))],
      as_notify_on = [getUTCDateString (add_days matingDateUTC (109 + int i)),
                      getUTCDateString (add_days matingDateUTC (110 + int i))]\<rparr>"

text \<open>Lines 159 to 178: the immediate confirmation alert.\<close>

definition breeding_success_alert ::
  "uuid \<Rightarrow> uuid \<Rightarrow> pig_id \<Rightarrow> pig_id \<Rightarrow> uuid option \<Rightarrow> instant \<Rightarrow> instant \<Rightarrow>
   string option \<Rightarrow> utc_date \<Rightarrow> alert_spec" where
  "breeding_success_alert farm userId sow boar pen mating expected alert_message notifyOnDate =
     \<lparr>as_farm_id = farm, as_user_id = userId, as_pig_id = Some sow, as_pen_id = pen,
      as_name = [Lit ''Breeding Success for '', Lit sow, Lit '' and '', Lit boar],
      as_start_date = getUTCDateString mating,
      as_type = Breeding, as_severity = Medium,
      as_message =
        (case or_null alert_message of
           Some m \<Rightarrow> [Lit m]
         | None \<Rightarrow> [Lit ''Breeding recorded for sow '', Lit sow, Lit '' and boar '', Lit boar,
                     Lit '' on '', LocalDate mating, Lit ''. Expected birth date: '',
                     LocalDate expected]),
      as_notify_on = [notifyOnDate]\<rparr>"

text \<open>Lines 125 to 238: the writes of a mating whose input has passed every check.\<close>

definition insert_mating ::
  "uuid \<Rightarrow> pig_id \<Rightarrow> pig_id \<Rightarrow> instant \<Rightarrow> instant \<Rightarrow> string option \<Rightarrow> string option \<Rightarrow>
   utc_date \<Rightarrow> uuid \<Rightarrow> db \<Rightarrow> breeding_record \<times> db" where
  "insert_mating farm sow boar mating expected notes alert_message notifyOnDate userId s =
     (let alertDate = add_days mating 21;
          breedingRecord =
            \<lparr>br_id = next_uuid s, br_farm_id = farm, br_sow_id = sow, br_boar_id = boar,
             br_mating_date = stored_date mating,
             br_expected_birth_date = Some (stored_date expected),
             br_actual_birth_date = None, br_number_of_piglets = None,
             br_notes = or_null notes, br_alert_date = Some (stored_date alertDate),
             br_is_deleted = False\<rparr>;
          s1 = s\<lparr>breeding_records := breeding_records s @ [breedingRecord],
                 next_uuid := Suc (next_uuid s)\<rparr>;
          pen_id = pen_of s1 sow farm;
          s2 = createAlert
                 (breeding_success_alert farm userId sow boar pen_id mating expected
                    alert_message notifyOnDate) s1;
          scheduled = nesting_alert farm userId sow pen_id mating
                      # map (birth_check_alert farm userId sow pen_id mating) [0..<5]
      in (breedingRecord, createAlerts scheduled s2))"

text \<open>Lines 66 to 123, then the writes: the request once its required fields and its two
  dates have been read.\<close>

definition checked_mating ::
  "breeding_data \<Rightarrow> uuid \<Rightarrow> pig_id \<Rightarrow> pig_id \<Rightarrow> instant \<Rightarrow> instant \<Rightarrow> uuid \<Rightarrow> db \<Rightarrow>
   (error + breeding_record) \<times> db" where
  "checked_mating d farm sow boar mating expected userId s =
     (if bd_immediate_notify_date d = Unparseable
      then (Inl (ValidationError
              [Lit ''Invalid immediate_notify_date format; must be YYYY-MM-DD'']), s)
      else
        let notifyOnDate =
              (case bd_immediate_notify_date d of
                 Parsed n \<Rightarrow> getUTCDateString n
               | _ \<Rightarrow> getUTCDateString mating)
        in if pigs_with_gender s sow farm ''female'' = []
           then (Inl (ValidationError [Lit ''Sow not found or invalid'']), s)
           else if pigs_with_gender s boar farm ''male'' = []
           then (Inl (ValidationError [Lit ''Boar not found or invalid'']), s)
           else if served_too_soon s sow farm mating
           then (Inl (ValidationError
                   [Lit ''Sow cannot be served within 1 week of weaning'']), s)
           else
             (case insert_mating farm sow boar mating expected (bd_notes d)
                     (bd_alert_message d) notifyOnDate userId s of
                (breedingRecord, s') \<Rightarrow> (Inr breedingRecord, s')))"

definition missing_fields :: error where
  "missing_fields = ValidationError [Lit ''Missing required breeding record fields'']"

definition createBreedingRecord ::
  "breeding_data \<Rightarrow> uuid \<Rightarrow> db \<Rightarrow> (error + breeding_record) \<times> db" where
  "createBreedingRecord d userId s =
     (if bd_farm_id d = None \<or> \<not> truthy (bd_sow_id d) \<or> \<not> truthy (bd_boar_id d)
         \<or> bd_mating_date d = Absent \<or> bd_expected_birth_date d = Absent
      then (Inl missing_fields, s)
      else
        case bd_mating_date d of
          Absent \<Rightarrow> (Inl missing_fields, s)
        | Unparseable \<Rightarrow>
            (Inl (ValidationError
               [Lit ''Invalid mating_date format; must be a valid date'']), s)
        | Parsed mating \<Rightarrow>
            (case bd_expected_birth_date d of
               Absent \<Rightarrow> (Inl missing_fields, s)
             | Unparseable \<Rightarrow>
                 (Inl (ValidationError
                    [Lit ''Invalid expected_birth_date format; must be a valid date'']), s)
             | Parsed expected \<Rightarrow>
                 (case (bd_farm_id d, bd_sow_id d, bd_boar_id d) of
                    (Some farm, Some sow, Some boar) \<Rightarrow>
                      checked_mating d farm sow boar mating expected userId s
                  | _ \<Rightarrow> (Inl missing_fields, s))))"

section \<open>Recording a birth outcome: \<^verbatim>\<open>updateBreedingRecord\<close>\<close>

record update_data =
  ud_actual_birth_date :: "instant option"
  ud_number_of_piglets :: "nat option"
  ud_notes :: "string option"

text \<open>Truthiness of an optional number: \<^verbatim>\<open>undefined\<close>, \<^verbatim>\<open>null\<close> and \<^verbatim>\<open>0\<close> are falsy.\<close>

definition truthy_num :: "nat option \<Rightarrow> bool" where
  "truthy_num v = (case v of None \<Rightarrow> False | Some n \<Rightarrow> n \<noteq> 0)"

text \<open>Lines 336 to 339 (and 511 to 514):
  \<^verbatim>\<open>SELECT ... FROM breeding_records WHERE id = $1 AND farm_id = $2 AND is_deleted = 0\<close>\<close>

definition live_record :: "uuid \<Rightarrow> uuid \<Rightarrow> breeding_record \<Rightarrow> bool" where
  "live_record recordId farmId r =
     (br_id r = recordId \<and> br_farm_id r = farmId \<and> \<not> br_is_deleted r)"

text \<open>Lines 348 to 356: the sizes of the sow's last three recorded litters, zero and
  unknown sizes dropped.\<close>

definition litters :: "db \<Rightarrow> pig_id \<Rightarrow> uuid \<Rightarrow> nat list" where
  "litters s sow farmId =
     filter (\<lambda>n. n > 0)
       (map (\<lambda>r. case br_number_of_piglets r of None \<Rightarrow> 0 | Some n \<Rightarrow> n)
          (take 3 (resolved_records s sow farmId)))"

definition culling_notification :: "uuid \<Rightarrow> uuid \<Rightarrow> pig_id \<Rightarrow> uuid \<Rightarrow> template \<Rightarrow> notification" where
  "culling_notification notificationId userId sow farmId msg =
     \<lparr>nt_id = notificationId, nt_user_id = userId, nt_type = ''culling_alert'',
      nt_title = ''Sow Culling Alert'', nt_message = msg, nt_data_sow_id = sow,
      nt_data_farm_id = farmId, nt_priority = High, nt_is_deleted = False\<rparr>"

definition insert_notification :: "uuid \<Rightarrow> pig_id \<Rightarrow> uuid \<Rightarrow> template \<Rightarrow> db \<Rightarrow> db" where
  "insert_notification userId sow farmId msg s =
     s\<lparr>notifications := notifications s @
          [culling_notification (next_uuid s) userId sow farmId msg],
       next_uuid := Suc (next_uuid s)\<rparr>"

text \<open>Lines 357 to 393: the two culling rules.\<close>

definition low_litter_message :: "pig_id \<Rightarrow> template" where
  "low_litter_message sow =
     [Lit ''Sow '', Lit sow,
      Lit '' recommended for culling due to low litter size (<5) over 3 generations.'']"

definition litter_size_message :: "pig_id \<Rightarrow> nat \<Rightarrow> template" where
  "litter_size_message sow n =
     [Lit ''Sow '', Lit sow, Lit '' recommended for culling due to litter size '', Num n,
      Lit ''.'']"

definition culling_check :: "uuid \<Rightarrow> pig_id \<Rightarrow> uuid \<Rightarrow> nat \<Rightarrow> db \<Rightarrow> db" where
  "culling_check userId sow farmId number_of_piglets s =
     (let ls = litters s sow farmId
      in if length ls \<ge> 3 \<and> list_all (\<lambda>n. n < 5) ls
         then insert_notification userId sow farmId (low_litter_message sow) s
         else if number_of_piglets < 5 \<or> number_of_piglets > 10
         then insert_notification userId sow farmId
                (litter_size_message sow number_of_piglets) s
         else s)"

text \<open>Lines 396 to 400: \<^verbatim>\<open>UPDATE pigs SET is_pregnant = false, ...\<close>\<close>

definition clear_pregnancy :: "pig_id \<Rightarrow> uuid \<Rightarrow> instant \<Rightarrow> db \<Rightarrow> db" where
  "clear_pregnancy sow farmId birth s =
     s\<lparr>pigs := map (\<lambda>p. if pg_pig_id p = sow \<and> pg_farm_id p = farmId \<and> \<not> pg_is_deleted p
                        then p\<lparr>pg_is_pregnant := False, pg_pregnancy_start_date := None,
                               pg_expected_birth_date := None,
                               pg_actual_birth_date := Some (stored_date birth)\<rparr>
                        else p) (pigs s)\<rparr>"

text \<open>Lines 403 to 407:
  \<^verbatim>\<open>UPDATE alerts SET status = 'completed' WHERE pig_id = $1 AND alert_type = 'breeding'
  AND status = 'pending' AND is_deleted = false\<close>\<close>

definition complete_breeding_alerts :: "pig_id \<Rightarrow> db \<Rightarrow> db" where
  "complete_breeding_alerts sow s =
     s\<lparr>alerts := map (\<lambda>a. if al_pig_id a = Some sow \<and> al_type a = Breeding
                               \<and> al_status a = Pending \<and> \<not> al_is_deleted a
                          then a\<lparr>al_status := Completed\<rparr> else a) (alerts s)\<rparr>"

text \<open>Lines 418 to 473: the three alerts that follow a birth.\<close>

definition post_birth_alert ::
  "uuid \<Rightarrow> uuid \<Rightarrow> pig_id \<Rightarrow> uuid option \<Rightarrow> instant \<Rightarrow> string \<Rightarrow> string \<Rightarrow> int \<Rightarrow> severity \<Rightarrow>
   alert_spec" where
  "post_birth_alert farmId userId sow pen birth title verb offset sev =
     \<lparr>as_farm_id = farmId, as_user_id = userId, as_pig_id = Some sow, as_pen_id = pen,
      as_name = [Lit title, Lit sow],
      as_start_date = getUTCDateString (add_days birth offset),
      as_type = Birth, as_severity = sev,
      as_message = [Lit verb, Lit sow, Lit '' on pen '', pen_text pen, Lit '' by '',
                    LocalDate (add_days birth offset)],
      as_notify_on = [getUTCDateString (add_days birth (offset - 1)),
                      getUTCDateString (add_days birth offset)]\<rparr>"

definition post_birth_alerts ::
  "uuid \<Rightarrow> uuid \<Rightarrow> pig_id \<Rightarrow> uuid option \<Rightarrow> instant \<Rightarrow> alert_spec list" where
  "post_birth_alerts farmId userId sow pen birth =
     [post_birth_alert farmId userId sow pen birth
        ''Fostering Check for '' ''Check fostering needs for pig '' 4 Medium,
      post_birth_alert farmId userId sow pen birth
        ''Remove Nesting Box for '' ''Remove nesting box for pig '' 20 Medium,
      post_birth_alert farmId userId sow pen birth
        ''Wean Piglets for '' ''Wean piglets for pig '' 42 High]"

text \<open>Lines 346 to 484: what happens when both a birth date and a non-zero litter size
  are supplied.\<close>

definition birth_cascade :: "uuid \<Rightarrow> pig_id \<Rightarrow> uuid \<Rightarrow> instant \<Rightarrow> nat \<Rightarrow> db \<Rightarrow> db" where
  "birth_cascade userId sow farmId birth number_of_piglets s =
     (let s1 = culling_check userId sow farmId number_of_piglets s;
          s2 = clear_pregnancy sow farmId birth s1;
          s3 = complete_breeding_alerts sow s2;
          pen_id = pen_of s3 sow farmId
      in createAlerts (post_birth_alerts farmId userId sow pen_id birth) s3)"

text \<open>Lines 487 to 497: the new values of the row; a falsy argument keeps the stored
  value (\<^verbatim>\<open>x || breedingRecord.x\<close>).\<close>

definition set_outcome :: "update_data \<Rightarrow> breeding_record \<Rightarrow> breeding_record \<Rightarrow> breeding_record" where
  "set_outcome u breedingRecord r =
     r\<lparr>br_actual_birth_date :=
          (case ud_actual_birth_date u of
             Some t \<Rightarrow> Some (stored_date t)
           | None \<Rightarrow> br_actual_birth_date breedingRecord),
       br_number_of_piglets :=
          (if truthy_num (ud_number_of_piglets u) then ud_number_of_piglets u
           else br_number_of_piglets breedingRecord),
       br_notes := (if truthy (ud_notes u) then ud_notes u else br_notes breedingRecord)\<rparr>"

definition record_not_found :: error where
  "record_not_found = ValidationError [Lit ''Breeding record not found'']"

definition updateBreedingRecord ::
  "uuid \<Rightarrow> uuid \<Rightarrow> update_data \<Rightarrow> uuid \<Rightarrow> db \<Rightarrow> (error + breeding_record) \<times> db" where
  "updateBreedingRecord recordId farmId u userId s =
     (case filter (live_record recordId farmId) (breeding_records s) of
        [] \<Rightarrow> (Inl record_not_found, s)
      | breedingRecord # _ \<Rightarrow>
          (let s1 = (case (ud_actual_birth_date u, ud_number_of_piglets u) of
                       (Some birth, Some n) \<Rightarrow>
                         if n \<noteq> 0
                         then birth_cascade userId (br_sow_id breedingRecord) farmId birth n s
                         else s
                     | _ \<Rightarrow> s);
               s2 = s1\<lparr>breeding_records :=
                         map (\<lambda>r. if live_record recordId farmId r
                                   then set_outcome u breedingRecord r else r)
                           (breeding_records s1)\<rparr>
           in (Inr (set_outcome u breedingRecord breedingRecord), s2)))"

section \<open>Deleting a record: \<^verbatim>\<open>deleteBreedingRecord\<close>\<close>

text \<open>Lines 534 to 538 and 541 to 545.\<close>

definition reset_pregnancy :: "pig_id \<Rightarrow> uuid \<Rightarrow> db \<Rightarrow> db" where
  "reset_pregnancy sow farmId s =
     s\<lparr>pigs := map (\<lambda>p. if pg_pig_id p = sow \<and> pg_farm_id p = farmId \<and> \<not> pg_is_deleted p
                        then p\<lparr>pg_is_pregnant := False, pg_pregnancy_start_date := None,
                               pg_expected_birth_date := None\<rparr>
                        else p) (pigs s)\<rparr>"

definition reject_alerts :: "pig_id \<Rightarrow> db \<Rightarrow> db" where
  "reject_alerts sow s =
     s\<lparr>alerts := map (\<lambda>a. if al_pig_id a = Some sow \<and> (al_type a = Breeding \<or> al_type a = Birth)
                               \<and> al_status a = Pending \<and> \<not> al_is_deleted a
                          then a\<lparr>al_status := Rejected\<rparr> else a) (alerts s)\<rparr>"

definition deleteBreedingRecord :: "uuid \<Rightarrow> uuid \<Rightarrow> uuid \<Rightarrow> db \<Rightarrow> (error + uuid) \<times> db" where
  "deleteBreedingRecord recordId farmId userId s =
     (case filter (live_record recordId farmId) (breeding_records s) of
        [] \<Rightarrow> (Inl record_not_found, s)
      | breedingRecord # _ \<Rightarrow>
          (let s1 = s\<lparr>breeding_records :=
                        map (\<lambda>r. if live_record recordId farmId r
                                  then r\<lparr>br_is_deleted := True\<rparr> else r)
                          (breeding_records s)\<rparr>;
               s2 = s1\<lparr>piglet_records :=
                         map (\<lambda>k. if pl_breeding_record_id k = recordId \<and> \<not> pl_is_deleted k
                                   then k\<lparr>pl_is_deleted := True\<rparr> else k)
                           (piglet_records s1)\<rparr>;
               s3 = (if br_actual_birth_date breedingRecord = None
                     then reject_alerts (br_sow_id breedingRecord)
                            (reset_pregnancy (br_sow_id breedingRecord) farmId s2)
                     else s2)
           in (Inr recordId, s3)))"

section \<open>Registering a litter: \<^verbatim>\<open>createPigletRecord\<close>\<close>

record piglet_in =
  pi_breeding_record_id :: "uuid option"
  pi_piglet_number :: "string option"
  pi_birth_weight :: "nat option"
  pi_gender :: "string option"
  pi_color :: "string option"
  pi_status :: "string option"
  pi_parent_male_id :: "string option"
  pi_parent_female_id :: "string option"
  pi_notes :: "string option"
  pi_actual_birth_date :: "instant option"

text \<open>The value the function returns: \<^verbatim>\<open>{success: false, message}\<close> or
  \<^verbatim>\<open>{success: true, message, data}\<close> with the inserted rows' \<^verbatim>\<open>id\<close> and
  \<^verbatim>\<open>piglet_number\<close>.\<close>

datatype piglet_result =
  is_failure: Failure template
| Success template "(uuid \<times> string) list"

text \<open>\<^verbatim>\<open>error.message || "Failed to create piglets"\<close>\<close>

definition failure_of :: "error \<Rightarrow> piglet_result" where
  "failure_of e =
     (let m = (case e of ValidationError m \<Rightarrow> m | DatabaseError m \<Rightarrow> m)
      in Failure (if m = [] then [Lit ''Failed to create piglets''] else m))"

text \<open>\<^verbatim>\<open>xs.join(", ")\<close> inside a template literal.\<close>

fun join_parts :: "string list \<Rightarrow> template" where
  "join_parts [] = []"
| "join_parts [x] = [Lit x]"
| "join_parts (x # y # ys) = Lit x # Lit '', '' # join_parts (y # ys)"

text \<open>An interpolated value that may be \<^verbatim>\<open>undefined\<close>.\<close>

definition id_part :: "uuid option \<Rightarrow> part" where
  "id_part v = (case v of None \<Rightarrow> Lit ''undefined'' | Some i \<Rightarrow> Id i)"

definition str_part :: "string option \<Rightarrow> part" where
  "str_part v = (case v of None \<Rightarrow> Lit ''undefined'' | Some x \<Rightarrow> Lit x)"

text \<open>Lines 575 to 587: the required fields of every entry.\<close>

fun required_fields_error :: "piglet_in list \<Rightarrow> error option" where
  "required_fields_error [] = None"
| "required_fields_error (piglet # rest) =
     (if pi_breeding_record_id piglet = None
      then Some (ValidationError [Lit ''breeding_record_id is required for each piglet''])
      else if \<not> truthy (pi_piglet_number piglet)
      then Some (ValidationError [Lit ''piglet_number is required for each piglet''])
      else required_fields_error rest)"

text \<open>Lines 590 to 596: the breeding records the batch refers to.\<close>

definition breedingRecordIds :: "piglet_in list \<Rightarrow> uuid option list" where
  "breedingRecordIds pigletz = remdups (map pi_breeding_record_id pigletz)"

definition breedingResult :: "piglet_in list \<Rightarrow> uuid \<Rightarrow> db \<Rightarrow> breeding_record list" where
  "breedingResult pigletz farm_id s =
     filter (\<lambda>r. Some (br_id r) \<in> set (breedingRecordIds pigletz) \<and> br_farm_id r = farm_id
                \<and> \<not> br_is_deleted r)
       (breeding_records s)"

text \<open>Lines 601 to 621: the litter size of each record, with one piglet of tolerance.\<close>

fun litter_size_error :: "breeding_record list \<Rightarrow> piglet_in list \<Rightarrow> db \<Rightarrow> error option" where
  "litter_size_error [] pigletz s = None"
| "litter_size_error (record # rest) pigletz s =
     (let currentPigletCount =
            length (filter (\<lambda>k. pl_breeding_record_id k = br_id record \<and> \<not> pl_is_deleted k)
                      (piglet_records s));
          newPigletsForRecord =
            length (filter (\<lambda>piglet. pi_breeding_record_id piglet = Some (br_id record)) pigletz)
      in if currentPigletCount + newPigletsForRecord
            > (case br_number_of_piglets record of None \<Rightarrow> 0 | Some n \<Rightarrow> n) + 1
         then Some (ValidationError
                [Lit ''Total piglets significantly exceed breeding record litter size for breeding record '',
                 Id (br_id record)])
         else litter_size_error rest pigletz s)"

text \<open>Lines 623 to 641: the piglet numbers of the batch against the rows already stored
  for the farm.\<close>

definition pigletNumbers :: "piglet_in list \<Rightarrow> string option list" where
  "pigletNumbers pigletz = filter truthy (map pi_piglet_number pigletz)"

definition duplicates :: "piglet_in list \<Rightarrow> uuid \<Rightarrow> db \<Rightarrow> string list" where
  "duplicates pigletz farm_id s =
     map pl_piglet_number
       (filter (\<lambda>k. pl_farm_id k = farm_id \<and> Some (pl_piglet_number k) \<in> set (pigletNumbers pigletz)
                  \<and> \<not> pl_is_deleted k)
          (piglet_records s))"

definition piglet_number_error :: "piglet_in list \<Rightarrow> uuid \<Rightarrow> db \<Rightarrow> error option" where
  "piglet_number_error pigletz farm_id s =
     (if pigletNumbers pigletz = []
      then Some (ValidationError [Lit ''At least one valid piglet number is required''])
      else if duplicates pigletz farm_id s \<noteq> []
      then Some (ValidationError
             (Lit ''Duplicate piglet numbers: '' # join_parts (duplicates pigletz farm_id s)))
      else None)"

text \<open>Lines 643 to 679: the parents named by the batch.\<close>

definition parentIds :: "piglet_in list \<Rightarrow> string option list" where
  "parentIds pigletz =
     remdups (filter truthy
       (concat (map (\<lambda>piglet. [pi_parent_male_id piglet, pi_parent_female_id piglet]) pigletz)))"

definition foundIds :: "piglet_in list \<Rightarrow> uuid \<Rightarrow> db \<Rightarrow> pig list" where
  "foundIds pigletz farm_id s =
     filter (\<lambda>p. pg_farm_id p = farm_id \<and> Some (pg_pig_id p) \<in> set (parentIds pigletz)
                \<and> \<not> pg_is_deleted p)
       (pigs s)"

definition missingIds :: "piglet_in list \<Rightarrow> uuid \<Rightarrow> db \<Rightarrow> string option list" where
  "missingIds pigletz farm_id s =
     filter (\<lambda>i. find (\<lambda>f. Some (pg_pig_id f) = i) (foundIds pigletz farm_id s) = None)
       (parentIds pigletz)"

definition parent_error :: "piglet_in \<Rightarrow> piglet_in list \<Rightarrow> uuid \<Rightarrow> db \<Rightarrow> error option" where
  "parent_error first pigletz farm_id s =
     (if parentIds pigletz = [] then None
      else if missingIds pigletz farm_id s \<noteq> []
      then Some (ValidationError
             (Lit ''Invalid parent IDs: ''
              # join_parts (map (\<lambda>i. case i of None \<Rightarrow> [] | Some x \<Rightarrow> x)
                              (missingIds pigletz farm_id s))))
      else
        let sowId = pi_parent_female_id first
        in if truthy sowId
           then (case find (\<lambda>f. Some (pg_pig_id f) = sowId) (foundIds pigletz farm_id s) of
                   None \<Rightarrow> Some (ValidationError
                             [Lit ''Parent female ID '', str_part sowId, Lit '' is not a sow''])
                 | Some sow \<Rightarrow>
                     if pg_gender sow \<noteq> ''female''
                     then Some (ValidationError
                            [Lit ''Parent female ID '', str_part sowId, Lit '' is not a sow''])
                     else None)
           else None)"

text \<open>
  Lines 720 to 744: the birth-history row of a breeding record, inserted when the record
  has none. The column \<^verbatim>\<open>birth_date\<close> is declared \<^verbatim>\<open>NOT NULL\<close> (migration 8), so the
  insert is refused by the database when the entry carries no birth date.
\<close>

definition ensure_birth_history ::
  "piglet_in \<Rightarrow> piglet_in list \<Rightarrow> breeding_record \<Rightarrow> uuid \<Rightarrow> db \<Rightarrow> error + db" where
  "ensure_birth_history piglet pigletz breedingRecord farm_id s =
     (case filter (\<lambda>h. bh_breeding_record_id h = br_id breedingRecord \<and> \<not> bh_is_deleted h)
             (pig_birth_history s) of
        h # _ \<Rightarrow> Inr s
      | [] \<Rightarrow>
          (case pi_actual_birth_date piglet of
             None \<Rightarrow> Inl (DatabaseError
                      [Lit ''null value in column birth_date violates not-null constraint''])
           | Some birth \<Rightarrow>
               Inr (s\<lparr>pig_birth_history := pig_birth_history s @
                        [\<lparr>bh_id = next_uuid s, bh_farm_id = farm_id,
                          bh_sow_id = (case or_null (pi_parent_female_id piglet) of
                                         Some x \<Rightarrow> x | None \<Rightarrow> br_sow_id breedingRecord),
                          bh_breeding_record_id = br_id breedingRecord,
                          bh_birth_date = stored_date birth,
                          bh_number_of_piglets =
                            length (filter (\<lambda>k. pi_breeding_record_id k
                                                 = Some (br_id breedingRecord)) pigletz),
                          bh_notes = or_null (pi_notes piglet),
                          bh_is_deleted = False\<rparr>],
                      next_uuid := Suc (next_uuid s)\<rparr>)))"

text \<open>
  Lines 746 to 768: the insert of one piglet row. The column \<^verbatim>\<open>gender\<close> carries
  \<^verbatim>\<open>CHECK (gender IN ('male', 'female'))\<close> (migration 2); a null gender passes.
\<close>

definition insert_piglet ::
  "piglet_in \<Rightarrow> uuid \<Rightarrow> string \<Rightarrow> uuid \<Rightarrow> db \<Rightarrow> error + ((uuid \<times> string) \<times> db)" where
  "insert_piglet piglet breeding_record_id piglet_number farm_id s =
     (let gender = or_null (pi_gender piglet)
      in if gender \<noteq> None \<and> gender \<noteq> Some ''male'' \<and> gender \<noteq> Some ''female''
         then Inl (DatabaseError
                [Lit ''new row for relation piglet_records violates check constraint''])
         else
           Inr ((next_uuid s, piglet_number),
                s\<lparr>piglet_records := piglet_records s @
                     [\<lparr>pl_id = next_uuid s, pl_breeding_record_id = breeding_record_id,
                       pl_farm_id = farm_id, pl_piglet_number = piglet_number,
                       pl_birth_weight =
                         (if truthy_num (pi_birth_weight piglet) then pi_birth_weight piglet
                          else None),
                       pl_gender = gender, pl_color = or_null (pi_color piglet),
                       pl_status = (case or_null (pi_status piglet) of
                                      Some x \<Rightarrow> x | None \<Rightarrow> ''alive''),
                       pl_weaning_date =
                         (case pi_actual_birth_date piglet of
                            None \<Rightarrow> None
                          | Some birth \<Rightarrow> Some (stored_date (add_days birth 42))),
                       pl_parent_male_id = or_null (pi_parent_male_id piglet),
                       pl_parent_female_id = or_null (pi_parent_female_id piglet),
                       pl_notes = or_null (pi_notes piglet), pl_is_deleted = False\<rparr>],
                   next_uuid := Suc (next_uuid s)\<rparr>))"

text \<open>
  Lines 682 to 769: the loop over the batch. Each write is its own statement on the
  store (there is no transaction), so the store reached when an entry is refused is
  returned together with the error.
\<close>

fun insert_loop ::
  "piglet_in list \<Rightarrow> piglet_in list \<Rightarrow> breeding_record list \<Rightarrow> uuid \<Rightarrow> (uuid \<times> string) list \<Rightarrow>
   db \<Rightarrow> error option \<times> (uuid \<times> string) list \<times> db" where
  "insert_loop [] pigletz rows farm_id insertedPiglets s = (None, insertedPiglets, s)"
| "insert_loop (piglet # rest) pigletz rows farm_id insertedPiglets s =
     (case find (\<lambda>row. Some (br_id row) = pi_breeding_record_id piglet) rows of
        None \<Rightarrow>
          (Some (ValidationError
             [Lit ''Breeding record '', id_part (pi_breeding_record_id piglet),
              Lit '' not found'']), insertedPiglets, s)
      | Some breedingRecord \<Rightarrow>
          if Some (br_sow_id breedingRecord) \<noteq> pi_parent_female_id piglet
          then (Some (ValidationError
                  [Lit ''Breeding record '', id_part (pi_breeding_record_id piglet),
                   Lit '' sows not match sow '', str_part (pi_parent_female_id piglet)]),
                insertedPiglets, s)
          else
            (case ensure_birth_history piglet pigletz breedingRecord farm_id s of
               Inl e \<Rightarrow> (Some e, insertedPiglets, s)
             | Inr s1 \<Rightarrow>
                 (case insert_piglet piglet (br_id breedingRecord)
                         (case pi_piglet_number piglet of Some x \<Rightarrow> x | None \<Rightarrow> [])
                         farm_id s1 of
                    Inl e \<Rightarrow> (Some e, insertedPiglets, s1)
                  | Inr (row, s2) \<Rightarrow>
                      insert_loop rest pigletz rows farm_id (insertedPiglets @ [row]) s2)))"

text \<open>Lines 771 to 799: the alert for moving the piglets at weaning.
  \<^verbatim>\<open>dayjs(undefined)\<close> is the current time, so the clock is an argument.\<close>

definition relocate_alert :: "piglet_in \<Rightarrow> uuid \<Rightarrow> uuid \<Rightarrow> instant \<Rightarrow> db \<Rightarrow> alert_spec" where
  "relocate_alert first farm_id userId now s =
     (let actualBirthDateUTC = (case pi_actual_birth_date first of Some t \<Rightarrow> t | None \<Rightarrow> now);
          weaningDate = add_days actualBirthDateUTC 42;
          pen_id = (case pi_parent_female_id first of
                      None \<Rightarrow> None
                    | Some sow \<Rightarrow> pen_of s sow farm_id)
      in \<lparr>as_farm_id = farm_id, as_user_id = userId, as_pig_id = pi_parent_female_id first,
          as_pen_id = pen_id,
          as_name = [Lit ''Relocate Piglets for '', str_part (pi_parent_female_id first)],
          as_start_date = getUTCDateString weaningDate,
          as_type = Birth, as_severity = Medium,
          as_message = [Lit ''Relocate piglets for pig '', str_part (pi_parent_female_id first),
                        Lit '' to individual pens by '', LocalDate weaningDate],
          as_notify_on = [getUTCDateString (add_days weaningDate (- 1)),
                          getUTCDateString weaningDate]\<rparr>)"

text \<open>Lines 559 to 679: the checks made before anything is written.\<close>

definition batch_error :: "piglet_in list \<Rightarrow> uuid \<Rightarrow> db \<Rightarrow> error option" where
  "batch_error pigletz farm_id s =
     (if filter (\<lambda>f. fm_id f = farm_id \<and> \<not> fm_is_deleted f) (farms s) = []
      then Some (ValidationError [Lit ''Farm not found''])
      else
        case pigletz of
          [] \<Rightarrow> Some (ValidationError [Lit ''pigletz array is required and must not be empty''])
        | first # _ \<Rightarrow>
            (case required_fields_error pigletz of
               Some e \<Rightarrow> Some e
             | None \<Rightarrow>
                 if length (breedingResult pigletz farm_id s) \<noteq> length (breedingRecordIds pigletz)
                 then Some (ValidationError [Lit ''One or more breeding records not found''])
                 else
                   (case litter_size_error (breedingResult pigletz farm_id s) pigletz s of
                      Some e \<Rightarrow> Some e
                    | None \<Rightarrow>
                        (case piglet_number_error pigletz farm_id s of
                           Some e \<Rightarrow> Some e
                         | None \<Rightarrow> parent_error first pigletz farm_id s))))"

definition createPigletRecord ::
  "piglet_in list \<Rightarrow> uuid \<Rightarrow> uuid \<Rightarrow> instant \<Rightarrow> db \<Rightarrow> piglet_result \<times> db" where
  "createPigletRecord pigletz farm_id userId now s =
     (case batch_error pigletz farm_id s of
        Some e \<Rightarrow> (failure_of e, s)
      | None \<Rightarrow>
          (case insert_loop pigletz pigletz (breedingResult pigletz farm_id s) farm_id [] s of
             (Some e, insertedPiglets, s1) \<Rightarrow> (failure_of e, s1)
           | (None, insertedPiglets, s1) \<Rightarrow>
               (case pigletz of
                  [] \<Rightarrow> (failure_of (ValidationError []), s1)
                | first # _ \<Rightarrow>
                    (Success [Num (length insertedPiglets), Lit '' piglets created successfully'']
                       insertedPiglets,
                     createAlert (relocate_alert first farm_id userId now s1) s1))))"




section \<open>Example stores\<close>

text \<open>Farm 10 with the sow S1 (in pen 7) and the boar B1; user 2 acts.\<close>

definition example_user :: uuid where
  "example_user = 2"

definition example_pigs :: "pig list" where
  "example_pigs =
     [\<lparr>pg_pig_id = ''S1'', pg_farm_id = 10, pg_gender = ''female'', pg_pen_id = Some 7,
       pg_is_pregnant = False, pg_pregnancy_start_date = None, pg_expected_birth_date = None,
       pg_actual_birth_date = None, pg_is_deleted = False\<rparr>,
      \<lparr>pg_pig_id = ''B1'', pg_farm_id = 10, pg_gender = ''male'', pg_pen_id = None,
       pg_is_pregnant = False, pg_pregnancy_start_date = None, pg_expected_birth_date = None,
       pg_actual_birth_date = None, pg_is_deleted = False\<rparr>]"

definition example_db :: db where
  "example_db =
     \<lparr>farms = [\<lparr>fm_id = 10, fm_is_deleted = False\<rparr>], pigs = example_pigs,
      breeding_records = [], piglet_records = [], pig_birth_history = [], alerts = [],
      notifications = [], next_uuid = 100\<rparr>"

text \<open>A mating on 2025-01-01 at 15:30 UTC (day 20089 of the epoch), birth expected on
  2025-04-25 (day 20203).\<close>

definition example_mating :: breeding_data where
  "example_mating =
     \<lparr>bd_farm_id = Some 10, bd_sow_id = Some ''S1'', bd_boar_id = Some ''B1'',
      bd_mating_date = Parsed 1735745400000, bd_expected_birth_date = Parsed 1745539200000,
      bd_notes = None, bd_immediate_notify_date = Absent, bd_alert_message = None\<rparr>"

text \<open>The records of a sow that the specification calls open: live, with no birth
  recorded.\<close>

definition open_records :: "db \<Rightarrow> pig_id \<Rightarrow> uuid \<Rightarrow> breeding_record list" where
  "open_records s sow farm =
     filter (\<lambda>r. br_sow_id r = sow \<and> br_farm_id r = farm \<and> br_actual_birth_date r = None
                \<and> \<not> br_is_deleted r)
       (breeding_records s)"

text \<open>The store with an unresolved mating of S1, and the store with a litter of S1 born on
  2025-04-26 (day 20204).\<close>

definition example_open_record :: breeding_record where
  "example_open_record =
     \<lparr>br_id = 50, br_farm_id = 10, br_sow_id = ''S1'', br_boar_id = ''B1'',
      br_mating_date = 20058, br_expected_birth_date = Some 20172,
      br_actual_birth_date = None, br_number_of_piglets = None, br_notes = None,
      br_alert_date = Some 20079, br_is_deleted = False\<rparr>"

definition example_open_db :: db where
  "example_open_db = example_db\<lparr>breeding_records := [example_open_record]\<rparr>"

definition example_resolved_record :: breeding_record where
  "example_resolved_record =
     \<lparr>br_id = 50, br_farm_id = 10, br_sow_id = ''S1'', br_boar_id = ''B1'',
      br_mating_date = 20089, br_expected_birth_date = Some 20203,
      br_actual_birth_date = Some 20204, br_number_of_piglets = Some 6,
      br_notes = None, br_alert_date = Some 20110, br_is_deleted = False\<rparr>"

definition example_resolved_db :: db where
  "example_resolved_db = example_db\<lparr>breeding_records := [example_resolved_record]\<rparr>"

text \<open>Birth outcomes for an update: a litter of zero piglets born on 2025-04-26 at 18:00
  UTC, and litters of four and of six piglets born on that day (day 20204).\<close>

definition example_zero_update :: update_data where
  "example_zero_update =
     \<lparr>ud_actual_birth_date = Some 1745690400000, ud_number_of_piglets = Some 0,
      ud_notes = None\<rparr>"

definition example_small_litter :: update_data where
  "example_small_litter =
     \<lparr>ud_actual_birth_date = Some 1745625600000, ud_number_of_piglets = Some 4,
      ud_notes = None\<rparr>"

definition example_outcome :: update_data where
  "example_outcome =
     \<lparr>ud_actual_birth_date = Some 1745625600000, ud_number_of_piglets = Some 6,
      ud_notes = None\<rparr>"

text \<open>Three litters of S1 (4, 3 and 4 piglets) and a fourth mating, record 60, still open.\<close>

definition example_litter :: "uuid \<Rightarrow> utc_date \<Rightarrow> nat \<Rightarrow> breeding_record" where
  "example_litter rid birth n =
     \<lparr>br_id = rid, br_farm_id = 10, br_sow_id = ''S1'', br_boar_id = ''B1'',
      br_mating_date = birth - 114, br_expected_birth_date = Some birth,
      br_actual_birth_date = Some birth, br_number_of_piglets = Some n, br_notes = None,
      br_alert_date = Some (birth - 93), br_is_deleted = False\<rparr>"

definition example_low_yield_db :: db where
  "example_low_yield_db =
     example_db\<lparr>breeding_records :=
       [example_litter 51 19358 4, example_litter 52 19601 3,
        example_litter 53 19844 4, example_open_record\<lparr>br_id := 60\<rparr>]\<rparr>"

text \<open>The store reached from \<open>example_db\<close> by recording \<open>example_mating\<close>; the new
  record has id 100.\<close>

definition example_mated_db :: db where
  "example_mated_db = snd (createBreedingRecord example_mating example_user example_db)"

text \<open>Alerts about S1, and the store with the open record 50 of S1, two pending alerts and a
  completed one.\<close>

definition example_alert :: "uuid \<Rightarrow> alert_type \<Rightarrow> status \<Rightarrow> alert" where
  "example_alert i t st =
     \<lparr>al_id = i, al_name = [Lit ''Check Birth for '', Lit ''S1''], al_start_date = 20199,
      al_type = t, al_severity = High, al_message = [], al_status = st, al_farm_id = 10,
      al_user_id = 20, al_pig_id = Some ''S1'', al_pen_id = Some 7,
      al_notify_on = [20198, 20199], al_is_deleted = False\<rparr>"

definition example_pending_db :: db where
  "example_pending_db =
     example_open_db\<lparr>alerts := [example_alert 61 Breeding Pending, example_alert 62 Birth Pending,
                                 example_alert 63 Birth Completed]\<rparr>"

text \<open>An entry for record 50 (the litter of S1 born on 2025-04-26) with the given piglet
  number, naming S1 as the mother.\<close>

definition example_piglet :: "string \<Rightarrow> piglet_in" where
  "example_piglet num =
     \<lparr>pi_breeding_record_id = Some 50, pi_piglet_number = Some num, pi_birth_weight = None,
      pi_gender = None, pi_color = None, pi_status = None, pi_parent_male_id = None,
      pi_parent_female_id = Some ''S1'', pi_notes = None,
      pi_actual_birth_date = Some 1745625600000\<rparr>"

text \<open>A batch whose second entry omits the mother.\<close>

definition example_orphan_batch :: "piglet_in list" where
  "example_orphan_batch =
     [example_piglet ''1'', (example_piglet ''2'')\<lparr>pi_parent_female_id := None\<rparr>]"

section \<open>Properties of recording a mating\<close>

lemma upt_0_5: "[0..<5] = [0, 1, 2, 3, 4::nat]"
  by (simp add: upt_rec)

lemma utc_date_add_days: "getUTCDateString (add_days t n) = getUTCDateString t + n"
  by (simp add: getUTCDateString_def add_days_def day_ms_def)

lemma stored_date_add_days: "stored_date (add_days t n) = stored_date t + n"
  by (simp add: stored_date_def add_days_def day_ms_def)

text \<open>
  Claim C1. Every successful \<^verbatim>\<open>createBreedingRecord\<close> with mating date \<open>M\<close> appends
  exactly seven alerts to the alert table, all pending and all about the sow: the
  confirmation alert on the day of \<open>M\<close>, the nesting-box alert 110 days later, and five
  birth-check alerts 110 to 114 days later. The breeding record it inserts and returns
  holds the day of \<open>M\<close> as its mating date and the day 21 days later as its
  \<^verbatim>\<open>alert_date\<close>, whatever the time of day of \<open>M\<close>.
\<close>

theorem createBreedingRecord_seven_alerts:
  assumes "createBreedingRecord d userId s = (Inr r, s')"
    and "bd_mating_date d = Parsed M"
  shows "\<exists>new. alerts s' = alerts s @ new
     \<and> map al_start_date new =
         [getUTCDateString M, getUTCDateString M + 110, getUTCDateString M + 110,
          getUTCDateString M + 111, getUTCDateString M + 112, getUTCDateString M + 113,
          getUTCDateString M + 114]
     \<and> map al_type new = [Breeding, Breeding, Birth, Birth, Birth, Birth, Birth]
     \<and> map al_status new = [Pending, Pending, Pending, Pending, Pending, Pending, Pending]
     \<and> map al_is_deleted new = [False, False, False, False, False, False, False]
     \<and> map al_pig_id new = replicate 7 (Some (br_sow_id r))
     \<and> br_alert_date r = Some (stored_date M + 21)
     \<and> br_mating_date r = stored_date M
     \<and> breeding_records s' = breeding_records s @ [r]"
  using assms
  apply (simp add: createBreedingRecord_def checked_mating_def
      split: if_splits date_in.splits option.splits prod.splits)
  apply (auto simp: insert_mating_def Let_def upt_0_5 createAlert_def nesting_alert_def
      birth_check_alert_def breeding_success_alert_def utc_date_add_days
      stored_date_add_days numeral_eq_Suc)
  done

lemma example_mating_runs:
  "\<exists>r s'. createBreedingRecord example_mating example_user example_db = (Inr r, s')"
  by (simp add: createBreedingRecord_def checked_mating_def example_mating_def example_db_def
      example_pigs_def truthy_def pigs_with_gender_def served_too_soon_def resolved_records_def
      split: prod.splits)

theorem createBreedingRecord_seven_alerts_witness:
  "\<exists>r s'. createBreedingRecord example_mating example_user example_db = (Inr r, s')
     \<and> map al_start_date (alerts s') = [20089, 20199, 20199, 20200, 20201, 20202, 20203]
     \<and> br_mating_date r = 20089
     \<and> br_alert_date r = Some 20110"
proof -
  obtain r s' where run:
    "createBreedingRecord example_mating example_user example_db = (Inr r, s')"
    using example_mating_runs by blast
  have m: "bd_mating_date example_mating = Parsed 1735745400000"
    by (simp add: example_mating_def)
  from createBreedingRecord_seven_alerts [OF run m]
  have "map al_start_date (alerts s') = [20089, 20199, 20199, 20200, 20201, 20202, 20203]
     \<and> br_mating_date r = 20089
     \<and> br_alert_date r = Some 20110"
    by (auto simp: example_db_def getUTCDateString_def stored_date_def day_ms_def)
  with run show ?thesis
    by (intro exI [of _ r] exI [of _ s']) simp
qed

lemma sort_key_head_least:
  assumes "x \<in> set xs"
  shows "\<exists>h hs. sort_key f xs = h # hs \<and> h \<in> set xs \<and> f h \<le> f x"
proof (cases "sort_key f xs")
  case Nil
  then have "set (sort_key f xs) = {}" by simp
  then have "set xs = {}" by simp
  with assms show ?thesis by simp
next
  case (Cons h hs)
  have "sorted (map f (sort_key f xs))" by (rule sorted_sort_key)
  then have least: "\<forall>y\<in>set hs. f h \<le> f y" using Cons by simp
  have "set (h # hs) = set xs" using Cons set_sort [of f xs] by simp
  then have hin: "h \<in> set xs" and "x = h \<or> x \<in> set hs" using assms by auto
  then have "f h \<le> f x" using least by auto
  with Cons hin show ?thesis by simp
qed

lemma resolved_records_latest:
  assumes "r \<in> set (breeding_records s)" "br_sow_id r = sow" "br_farm_id r = farm"
    "\<not> br_is_deleted r" "br_actual_birth_date r = Some D"
    and latest: "\<forall>x\<in>set (breeding_records s). br_sow_id x = sow \<and> br_farm_id x = farm \<and> \<not> br_is_deleted x
           \<longrightarrow> (case br_actual_birth_date x of None \<Rightarrow> True | Some t \<Rightarrow> t \<le> D)"
  shows "\<exists>h hs. resolved_records s sow farm = h # hs \<and> br_actual_birth_date h = Some D"
proof -
  define xs where "xs = filter (\<lambda>r. br_sow_id r = sow \<and> br_farm_id r = farm
      \<and> br_actual_birth_date r \<noteq> None \<and> \<not> br_is_deleted r) (breeding_records s)"
  have rin: "r \<in> set xs" using assms(1-5) by (simp add: xs_def)
  from sort_key_head_least [OF rin, of birth_key]
  obtain h hs where hd: "sort_key birth_key xs = h # hs" and hin: "h \<in> set xs"
    and le: "birth_key h \<le> birth_key r" by blast
  from hin have hprops: "h \<in> set (breeding_records s)" "br_sow_id h = sow" "br_farm_id h = farm"
    "\<not> br_is_deleted h" "br_actual_birth_date h \<noteq> None" by (simp_all add: xs_def)
  then obtain t where t: "br_actual_birth_date h = Some t" by (cases "br_actual_birth_date h") auto
  have "t \<le> D" using latest hprops(1-4) t by fastforce
  moreover have "D \<le> t" using le t assms(5) by (simp add: birth_key_def)
  ultimately have "t = D" by simp
  with t hd show ?thesis by (simp add: resolved_records_def xs_def)
qed


text \<open>
  Claim C5. Let \<open>D\<close> be the latest birth date among the live resolved records of the sow.
  With every other precondition met, a mating on the day \<open>D + 48\<close> (at any time of that
  day) is refused with the rest-period error and leaves the store as it was, and a mating
  on the day \<open>D + 50\<close> is accepted.
\<close>

theorem remating_rest_period:
  assumes "bd_farm_id d = Some farm" "bd_sow_id d = Some sow" "sow \<noteq> []"
    and "bd_boar_id d = Some boar" "boar \<noteq> []"
    and "bd_expected_birth_date d = Parsed E" "bd_immediate_notify_date d \<noteq> Unparseable"
    and "pigs_with_gender s sow farm ''female'' \<noteq> []"
    and "pigs_with_gender s boar farm ''male'' \<noteq> []"
    and "r \<in> set (breeding_records s)" "br_sow_id r = sow" "br_farm_id r = farm"
        "\<not> br_is_deleted r" "br_actual_birth_date r = Some D"
    and "\<forall>x\<in>set (breeding_records s). br_sow_id x = sow \<and> br_farm_id x = farm \<and> \<not> br_is_deleted x
           \<longrightarrow> (case br_actual_birth_date x of None \<Rightarrow> True | Some t \<Rightarrow> t \<le> D)"
    and "getUTCDateString M48 = D + 48" "getUTCDateString M50 = D + 50"
  shows "createBreedingRecord (d\<lparr>bd_mating_date := Parsed M48\<rparr>) userId s
           = (Inl (ValidationError [Lit ''Sow cannot be served within 1 week of weaning'']), s)
       \<and> \<not> isl (fst (createBreedingRecord (d\<lparr>bd_mating_date := Parsed M50\<rparr>) userId s))"
proof -
  from resolved_records_latest [OF assms(10-15)]
  obtain h hs where h: "resolved_records s sow farm = h # hs" "br_actual_birth_date h = Some D"
    by blast
  have "M48 < (D + 49) * 86400000" "(D + 49) * 86400000 \<le> M50"
    using assms(16,17) by (simp_all add: getUTCDateString_def day_ms_def)
  then have soon: "served_too_soon s sow farm M48"
    and late: "\<not> served_too_soon s sow farm M50"
    using h by (simp_all add: served_too_soon_def add_days_def read_date_def day_ms_def)
  have t: "truthy (Some sow)" "truthy (Some boar)" using assms(3,5) by (simp_all add: truthy_def)
  show ?thesis
    using assms(1,2,4,6,7,8,9) soon late t
    by (simp add: createBreedingRecord_def checked_mating_def split: prod.splits)
qed

theorem remating_rest_period_witness:
  "createBreedingRecord (example_mating\<lparr>bd_mating_date := Parsed 1749828600000\<rparr>)
       example_user example_resolved_db
     = (Inl (ValidationError [Lit ''Sow cannot be served within 1 week of weaning'']),
        example_resolved_db)
   \<and> \<not> isl (fst (createBreedingRecord
                   (example_mating\<lparr>bd_mating_date := Parsed 1749945600000\<rparr>)
                   example_user example_resolved_db))"
  by (rule remating_rest_period [where farm = 10 and sow = "''S1''" and boar = "''B1''"
        and E = 1745539200000 and r = example_resolved_record and D = 20204])
     (simp_all add: example_mating_def example_resolved_db_def example_db_def example_pigs_def
        example_resolved_record_def pigs_with_gender_def getUTCDateString_def day_ms_def)


lemma succeeded_run: "\<not> isl (fst p) \<Longrightarrow> \<exists>r s'. p = (Inr r, s')"
  by (cases p, cases "fst p") auto

lemma createBreedingRecord_accepts:
  "\<not> isl (fst (createBreedingRecord d userId s)) \<longleftrightarrow>
     (\<exists>farm sow boar M E.
        bd_farm_id d = Some farm \<and> bd_sow_id d = Some sow \<and> sow \<noteq> [] \<and> bd_boar_id d = Some boar
        \<and> boar \<noteq> [] \<and> bd_mating_date d = Parsed M \<and> bd_expected_birth_date d = Parsed E
        \<and> bd_immediate_notify_date d \<noteq> Unparseable
        \<and> pigs_with_gender s sow farm ''female'' \<noteq> []
        \<and> pigs_with_gender s boar farm ''male'' \<noteq> []
        \<and> \<not> served_too_soon s sow farm M)"
  by (auto simp: createBreedingRecord_def checked_mating_def truthy_def Let_def
      split: date_in.splits option.splits prod.splits)

lemma createBreedingRecord_inserts:
  assumes "createBreedingRecord d userId s = (Inr r, s')"
  shows "breeding_records s' = breeding_records s @ [r] \<and> br_actual_birth_date r = None
     \<and> \<not> br_is_deleted r"
  using assms
  apply (simp add: createBreedingRecord_def checked_mating_def
      split: if_splits date_in.splits option.splits prod.splits)
  apply (auto simp: insert_mating_def Let_def upt_0_5 createAlert_def)
  done

lemma resolved_records_open_added:
  "br_actual_birth_date x = None \<Longrightarrow>
   resolved_records (s\<lparr>breeding_records := breeding_records s @ [x]\<rparr>) sow farm
     = resolved_records s sow farm"
  by (simp add: resolved_records_def)

lemma open_records_example:
  "open_records example_open_db ''S1'' 10 = [example_open_record]"
  by (simp add: open_records_def example_open_db_def example_db_def example_open_record_def)

lemma example_open_db_accepts:
  "\<not> isl (fst (createBreedingRecord example_mating example_user example_open_db))"
  unfolding createBreedingRecord_accepts
  by (simp add: example_mating_def example_open_db_def example_db_def example_pigs_def
      example_open_record_def pigs_with_gender_def served_too_soon_def resolved_records_def)

text \<open>
  Claim C4, as stated, fails: the store \<open>example_open_db\<close> holds an open record of
  sow S1, a further mating of S1 is accepted, and S1 then has two open records.
\<close>

theorem open_record_invariant_counterexample:
  "open_records example_open_db ''S1'' 10 = [example_open_record]
   \<and> \<not> isl (fst (createBreedingRecord example_mating example_user example_open_db))
   \<and> length (open_records
        (snd (createBreedingRecord example_mating example_user example_open_db)) ''S1'' 10) = 2"
proof -
  obtain r s' where run:
    "createBreedingRecord example_mating example_user example_open_db = (Inr r, s')"
    using succeeded_run [OF example_open_db_accepts] by blast
  have r: "br_sow_id r = ''S1''" "br_farm_id r = 10"
    using run
    by (auto simp: createBreedingRecord_def checked_mating_def insert_mating_def Let_def
        example_mating_def split: if_splits prod.splits)
  from createBreedingRecord_inserts [OF run] r
  have "open_records s' ''S1'' 10 = open_records example_open_db ''S1'' 10 @ [r]"
    by (simp add: open_records_def)
  then show ?thesis
    using run open_records_example example_open_db_accepts by simp
qed

text \<open>
  Claim C4, amended. \<^verbatim>\<open>createBreedingRecord\<close> does not look at open records: every
  accepted mating adds one open record to those the sow already has, and a mating that is
  accepted stays accepted when any unresolved record is added to the store.
\<close>

theorem createBreedingRecord_ignores_open_records:
  assumes "createBreedingRecord d userId s = (Inr r, s')"
  shows "open_records s' (br_sow_id r) (br_farm_id r)
           = open_records s (br_sow_id r) (br_farm_id r) @ [r]
     \<and> (\<forall>x. br_actual_birth_date x = None \<longrightarrow>
          \<not> isl (fst (createBreedingRecord d userId
                         (s\<lparr>breeding_records := breeding_records s @ [x]\<rparr>))))"
proof -
  from createBreedingRecord_inserts [OF assms]
  have "open_records s' (br_sow_id r) (br_farm_id r)
           = open_records s (br_sow_id r) (br_farm_id r) @ [r]"
    by (simp add: open_records_def)
  moreover have "\<not> isl (fst (createBreedingRecord d userId s))" using assms by simp
  then have "\<forall>x. br_actual_birth_date x = None \<longrightarrow>
          \<not> isl (fst (createBreedingRecord d userId
                         (s\<lparr>breeding_records := breeding_records s @ [x]\<rparr>)))"
    unfolding createBreedingRecord_accepts
    by (simp add: served_too_soon_def resolved_records_open_added pigs_with_gender_def)
  ultimately show ?thesis by simp
qed

theorem createBreedingRecord_ignores_open_records_witness:
  "length (open_records (snd (createBreedingRecord example_mating example_user example_open_db))
             ''S1'' 10) = 2
   \<and> \<not> isl (fst (createBreedingRecord example_mating example_user
                   (example_open_db\<lparr>breeding_records :=
                      breeding_records example_open_db @ [example_open_record]\<rparr>)))"
proof -
  obtain r s' where run:
    "createBreedingRecord example_mating example_user example_open_db = (Inr r, s')"
    using succeeded_run [OF example_open_db_accepts] by blast
  have r: "br_sow_id r = ''S1''" "br_farm_id r = 10"
    using run
    by (auto simp: createBreedingRecord_def checked_mating_def insert_mating_def Let_def
        example_mating_def split: if_splits prod.splits)
  have x: "br_actual_birth_date example_open_record = None"
    by (simp add: example_open_record_def)
  from createBreedingRecord_ignores_open_records [OF run] r x open_records_example
  show ?thesis by (simp add: run)
qed


section \<open>Properties of recording a birth outcome\<close>

lemma createAlerts_frame:
  "notifications (createAlerts as s) = notifications s
   \<and> pigs (createAlerts as s) = pigs s
   \<and> breeding_records (createAlerts as s) = breeding_records s
   \<and> piglet_records (createAlerts as s) = piglet_records s
   \<and> pig_birth_history (createAlerts as s) = pig_birth_history s
   \<and> farms (createAlerts as s) = farms s"
  by (induction as arbitrary: s) (simp_all add: createAlert_def)

text \<open>
  Claim C8. When \<^verbatim>\<open>number_of_piglets\<close> is absent or zero, \<^verbatim>\<open>updateBreedingRecord\<close>
  skips the whole birth cascade, also when a birth date is supplied: apart from the
  \<^verbatim>\<open>breeding_records\<close> table the store is returned as it was (no notification, no
  change of an alert, no new alert), and in the updated row the litter size keeps its
  stored value, as do the birth date and the notes when they are passed falsy. A birth
  date that is supplied is stored, and returned, as its calendar day.
\<close>

theorem update_without_litter_size:
  assumes "ud_number_of_piglets u = None \<or> ud_number_of_piglets u = Some 0"
  shows
    "(filter (live_record recordId farmId) (breeding_records s) = [] \<longrightarrow>
        updateBreedingRecord recordId farmId u userId s = (Inl record_not_found, s))
     \<and> (\<forall>b bs. filter (live_record recordId farmId) (breeding_records s) = b # bs \<longrightarrow>
          updateBreedingRecord recordId farmId u userId s =
            (Inr (b\<lparr>br_actual_birth_date :=
                       (case ud_actual_birth_date u of
                          None \<Rightarrow> br_actual_birth_date b
                        | Some t \<Rightarrow> Some (stored_date t)),
                     br_notes := (if truthy (ud_notes u) then ud_notes u else br_notes b)\<rparr>),
             s\<lparr>breeding_records :=
                  map (\<lambda>r. if live_record recordId farmId r
                            then r\<lparr>br_actual_birth_date :=
                                     (case ud_actual_birth_date u of
                                        None \<Rightarrow> br_actual_birth_date b
                                      | Some t \<Rightarrow> Some (stored_date t)),
                                   br_number_of_piglets := br_number_of_piglets b,
                                   br_notes := (if truthy (ud_notes u) then ud_notes u
                                                else br_notes b)\<rparr>
                            else r)
                    (breeding_records s)\<rparr>))"
  using assms
  by (auto simp: updateBreedingRecord_def set_outcome_def truthy_num_def Let_def
      split: option.splits)


theorem update_without_litter_size_witness:
  "updateBreedingRecord 50 10 example_zero_update example_user example_open_db =
     (Inr (example_open_record\<lparr>br_actual_birth_date := Some 20204\<rparr>),
      example_open_db\<lparr>breeding_records :=
        [example_open_record\<lparr>br_actual_birth_date := Some 20204\<rparr>]\<rparr>)"
  using update_without_litter_size [of example_zero_update 50 10 example_open_db example_user]
  by (simp add: example_zero_update_def example_open_db_def example_db_def
      example_open_record_def live_record_def truthy_def stored_date_def day_ms_def)

lemma birth_cascade_notifications:
  "notifications (birth_cascade userId sow farmId birth n s)
     = notifications (culling_check userId sow farmId n s)"
  by (simp add: birth_cascade_def Let_def createAlerts_frame clear_pregnancy_def
      complete_breeding_alerts_def)

lemma update_notifications:
  assumes "filter (live_record recordId farmId) (breeding_records s) = b # bs"
    and "ud_actual_birth_date u = Some birth" and "ud_number_of_piglets u = Some n" and "n \<noteq> 0"
  shows "notifications (snd (updateBreedingRecord recordId farmId u userId s))
           = notifications (culling_check userId (br_sow_id b) farmId n s)"
  using assms by (simp add: updateBreedingRecord_def Let_def birth_cascade_notifications)

lemma example_low_yield_litters: "litters example_low_yield_db ''S1'' 10 = [4, 3, 4]"
  by (simp add: litters_def resolved_records_def example_low_yield_db_def example_db_def
      example_litter_def example_open_record_def birth_key_def)

text \<open>
  Claim C3, as stated, fails: S1 has three recorded litters of 4, 3 and 4 piglets (Rule A
  holds) and the new litter has 4 piglets (Rule B holds), yet the update produces one
  notification, the one of Rule A.
\<close>

theorem culling_rules_counterexample:
  "litters example_low_yield_db ''S1'' 10 = [4, 3, 4]
   \<and> ud_number_of_piglets example_small_litter = Some 4
   \<and> notifications example_low_yield_db = []
   \<and> map nt_message (notifications
        (snd (updateBreedingRecord 60 10 example_small_litter example_user example_low_yield_db)))
      = [low_litter_message ''S1'']"
proof -
  have live: "filter (live_record 60 10) (breeding_records example_low_yield_db)
      = [example_open_record\<lparr>br_id := 60\<rparr>]"
    by (simp add: example_low_yield_db_def example_db_def example_litter_def
        example_open_record_def live_record_def)
  have "notifications
        (snd (updateBreedingRecord 60 10 example_small_litter example_user example_low_yield_db))
      = notifications (culling_check example_user ''S1'' 10 4 example_low_yield_db)"
    using update_notifications [OF live, of example_small_litter 1745625600000 4 example_user]
    by (simp add: example_small_litter_def example_open_record_def)
  moreover have "notifications example_low_yield_db = []"
    by (simp add: example_low_yield_db_def example_db_def)
  ultimately show ?thesis
    by (simp add: example_low_yield_litters culling_check_def insert_notification_def
        culling_notification_def example_small_litter_def)
qed

text \<open>
  Claim C3, amended. The rules are the two branches of one \<^verbatim>\<open>if ... else if\<close>: a birth
  outcome with a birth date and a non-zero litter size appends the Rule A notification
  when the sow has three recorded non-zero litters all below 5; otherwise the Rule B
  notification when the new litter is below 5 or above 10; otherwise nothing. At most one
  culling notification is produced per call.
\<close>

theorem culling_at_most_one:
  assumes "filter (live_record recordId farmId) (breeding_records s) = b # bs"
    and "ud_actual_birth_date u = Some birth" and "ud_number_of_piglets u = Some n" and "n \<noteq> 0"
  shows "notifications (snd (updateBreedingRecord recordId farmId u userId s)) =
           notifications s @
           (if length (litters s (br_sow_id b) farmId) \<ge> 3
               \<and> list_all (\<lambda>k. k < 5) (litters s (br_sow_id b) farmId)
            then [culling_notification (next_uuid s) userId (br_sow_id b) farmId
                    (low_litter_message (br_sow_id b))]
            else if n < 5 \<or> n > 10
            then [culling_notification (next_uuid s) userId (br_sow_id b) farmId
                    (litter_size_message (br_sow_id b) n)]
            else [])"
  unfolding update_notifications [OF assms]
  by (simp add: culling_check_def insert_notification_def Let_def)

theorem culling_at_most_one_witness:
  "notifications
     (snd (updateBreedingRecord 60 10 example_small_litter example_user example_low_yield_db))
   = [culling_notification 100 example_user ''S1'' 10 (low_litter_message ''S1'')]"
proof -
  have live: "filter (live_record 60 10) (breeding_records example_low_yield_db)
      = [example_open_record\<lparr>br_id := 60\<rparr>]"
    by (simp add: example_low_yield_db_def example_db_def example_litter_def
        example_open_record_def live_record_def)
  have u: "ud_actual_birth_date example_small_litter = Some 1745625600000"
    "ud_number_of_piglets example_small_litter = Some 4" "(4::nat) \<noteq> 0"
    by (simp_all add: example_small_litter_def)
  have s: "notifications example_low_yield_db = []" "next_uuid example_low_yield_db = 100"
    by (simp_all add: example_low_yield_db_def example_db_def)
  from culling_at_most_one [OF live u, of example_user] s
  show ?thesis
    by (simp add: example_low_yield_litters example_open_record_def)
qed

lemma example_mated_alerts:
  "map (\<lambda>a. (al_pig_id a, al_type a, al_status a, al_is_deleted a)) (alerts example_mated_db) =
     [(Some ''S1'', Breeding, Pending, False), (Some ''S1'', Breeding, Pending, False),
      (Some ''S1'', Birth, Pending, False), (Some ''S1'', Birth, Pending, False),
      (Some ''S1'', Birth, Pending, False), (Some ''S1'', Birth, Pending, False),
      (Some ''S1'', Birth, Pending, False)]"
  by (simp add: example_mated_db_def createBreedingRecord_def checked_mating_def
      example_mating_def example_db_def example_pigs_def truthy_def pigs_with_gender_def
      served_too_soon_def resolved_records_def insert_mating_def Let_def upt_0_5
      createAlert_def nesting_alert_def birth_check_alert_def breeding_success_alert_def)

lemma example_mated_records:
  "map (\<lambda>r. (br_id r, br_farm_id r, br_sow_id r, br_is_deleted r)) (breeding_records example_mated_db)
     = [(100, 10, ''S1'', False)]"
  by (simp add: example_mated_db_def createBreedingRecord_def checked_mating_def
      example_mating_def example_db_def example_pigs_def truthy_def pigs_with_gender_def
      served_too_soon_def resolved_records_def insert_mating_def Let_def upt_0_5
      createAlert_def)


lemma createAlerts_alerts:
  "map (\<lambda>a. (al_pig_id a, al_type a, al_status a, al_is_deleted a)) (alerts (createAlerts as s))
     = map (\<lambda>a. (al_pig_id a, al_type a, al_status a, al_is_deleted a)) (alerts s)
       @ map (\<lambda>a. (as_pig_id a, as_type a, Pending, False)) as"
  by (induction as arbitrary: s) (simp_all add: createAlert_def)

lemma update_alerts:
  assumes "filter (live_record recordId farmId) (breeding_records s) = b # bs"
    and "ud_actual_birth_date u = Some birth" and "ud_number_of_piglets u = Some n" and "n \<noteq> 0"
  shows "map (\<lambda>a. (al_pig_id a, al_type a, al_status a, al_is_deleted a))
           (alerts (snd (updateBreedingRecord recordId farmId u userId s)))
         = map (\<lambda>a. (al_pig_id a, al_type a,
                       if al_pig_id a = Some (br_sow_id b) \<and> al_type a = Breeding
                          \<and> al_status a = Pending \<and> \<not> al_is_deleted a
                       then Completed else al_status a,
                       al_is_deleted a)) (alerts s)
           @ replicate 3 (Some (br_sow_id b), Birth, Pending, False)"
proof -
  have post: "map (\<lambda>a. (as_pig_id a, as_type a, Pending, False))
                (post_birth_alerts farmId userId (br_sow_id b) pen birth)
              = replicate 3 (Some (br_sow_id b), Birth, Pending, False)" for pen
    by (simp add: post_birth_alerts_def post_birth_alert_def numeral_3_eq_3)
  show ?thesis
    using assms
    by (simp add: updateBreedingRecord_def Let_def birth_cascade_def createAlerts_alerts post
        complete_breeding_alerts_def clear_pregnancy_def culling_check_def
        insert_notification_def comp_def del: createAlerts.simps)
qed

text \<open>
  Claim C2 at the failing input: S1 is mated on 2025-01-01 and the birth of six piglets is
  recorded on 2025-04-26. The two pending alerts of type breeding become completed; the
  five pending birth-check alerts, of type birth, are still pending afterwards, followed
  by the three new post-birth alerts.
\<close>

theorem birth_checks_stay_pending:
  "map (\<lambda>a. (al_type a, al_status a))
     (alerts (snd (updateBreedingRecord 100 10 example_outcome example_user example_mated_db)))
   = [(Breeding, Completed), (Breeding, Completed),
      (Birth, Pending), (Birth, Pending), (Birth, Pending), (Birth, Pending), (Birth, Pending),
      (Birth, Pending), (Birth, Pending), (Birth, Pending)]"
proof -
  have live: "\<exists>b. filter (live_record 100 10) (breeding_records example_mated_db) = [b]
      \<and> br_sow_id b = ''S1''"
    using example_mated_records
    by (cases "breeding_records example_mated_db") (auto simp: live_record_def)
  then obtain b where b: "filter (live_record 100 10) (breeding_records example_mated_db) = [b]"
    "br_sow_id b = ''S1''" by blast
  have u: "ud_actual_birth_date example_outcome = Some 1745625600000"
    "ud_number_of_piglets example_outcome = Some 6" "(6::nat) \<noteq> 0"
    by (simp_all add: example_outcome_def)
  have "map (\<lambda>a. (al_type a, al_status a))
          (alerts (snd (updateBreedingRecord 100 10 example_outcome example_user example_mated_db)))
        = map (\<lambda>(p, t, st, d). (t, st))
            (map (\<lambda>a. (al_pig_id a, al_type a, al_status a, al_is_deleted a))
               (alerts (snd (updateBreedingRecord 100 10 example_outcome example_user
                               example_mated_db))))"
    by (simp add: comp_def)
  also have "\<dots> = map (\<lambda>(p, t, st, d). (t, st))
       (map (\<lambda>(p, t, st, d). (p, t, if p = Some ''S1'' \<and> t = Breeding \<and> st = Pending \<and> \<not> d
                                        then Completed else st, d))
          (map (\<lambda>a. (al_pig_id a, al_type a, al_status a, al_is_deleted a))
             (alerts example_mated_db))
        @ replicate 3 (Some ''S1'', Birth, Pending, False))"
    unfolding update_alerts [OF b(1) u] by (simp add: comp_def b(2))
  also have "\<dots> = [(Breeding, Completed), (Breeding, Completed),
      (Birth, Pending), (Birth, Pending), (Birth, Pending), (Birth, Pending), (Birth, Pending),
      (Birth, Pending), (Birth, Pending), (Birth, Pending)]"
    unfolding example_mated_alerts by (simp add: numeral_3_eq_3)
  finally show ?thesis .
qed

section \<open>Properties of deleting a record\<close>

text \<open>
  Claim C7, as stated, fails: record 50 of \<open>example_resolved_db\<close> has its birth date set,
  and deleting it succeeds and soft-removes it.
\<close>

theorem delete_resolved_counterexample:
  "br_actual_birth_date example_resolved_record = Some 20204
   \<and> deleteBreedingRecord 50 10 example_user example_resolved_db
       = (Inr 50,
          example_resolved_db\<lparr>breeding_records :=
            [example_resolved_record\<lparr>br_is_deleted := True\<rparr>]\<rparr>)"
  by (simp add: deleteBreedingRecord_def example_resolved_db_def example_db_def
      example_resolved_record_def live_record_def)

text \<open>
  Claim C7, amended. \<^verbatim>\<open>deleteBreedingRecord\<close> fails only when the farm has no live
  record with the given id. Otherwise it succeeds, resolved or not: it soft-removes the
  record and the live piglet rows linked to it; when the record is unresolved it also
  resets the sow's pregnancy flags and turns the sow's pending breeding and birth alerts
  to rejected; when the record is resolved it leaves pigs and alerts as they were.
\<close>

theorem deleteBreedingRecord_effect:
  "(filter (live_record recordId farmId) (breeding_records s) = [] \<longrightarrow>
      deleteBreedingRecord recordId farmId userId s = (Inl record_not_found, s))
   \<and> (\<forall>b bs. filter (live_record recordId farmId) (breeding_records s) = b # bs \<longrightarrow>
        fst (deleteBreedingRecord recordId farmId userId s) = Inr recordId
        \<and> breeding_records (snd (deleteBreedingRecord recordId farmId userId s))
            = map (\<lambda>r. if live_record recordId farmId r then r\<lparr>br_is_deleted := True\<rparr> else r)
                (breeding_records s)
        \<and> piglet_records (snd (deleteBreedingRecord recordId farmId userId s))
            = map (\<lambda>k. if pl_breeding_record_id k = recordId \<and> \<not> pl_is_deleted k
                        then k\<lparr>pl_is_deleted := True\<rparr> else k)
                (piglet_records s)
        \<and> (br_actual_birth_date b = None \<longrightarrow>
             pigs (snd (deleteBreedingRecord recordId farmId userId s))
               = map (\<lambda>p. if pg_pig_id p = br_sow_id b \<and> pg_farm_id p = farmId
                              \<and> \<not> pg_is_deleted p
                           then p\<lparr>pg_is_pregnant := False, pg_pregnancy_start_date := None,
                                  pg_expected_birth_date := None\<rparr>
                           else p) (pigs s)
             \<and> alerts (snd (deleteBreedingRecord recordId farmId userId s))
               = map (\<lambda>a. if al_pig_id a = Some (br_sow_id b)
                              \<and> (al_type a = Breeding \<or> al_type a = Birth)
                              \<and> al_status a = Pending \<and> \<not> al_is_deleted a
                           then a\<lparr>al_status := Rejected\<rparr> else a) (alerts s))
        \<and> (br_actual_birth_date b \<noteq> None \<longrightarrow>
             pigs (snd (deleteBreedingRecord recordId farmId userId s)) = pigs s
             \<and> alerts (snd (deleteBreedingRecord recordId farmId userId s)) = alerts s))"
  by (auto simp: deleteBreedingRecord_def Let_def reject_alerts_def reset_pregnancy_def)

theorem deleteBreedingRecord_effect_witness:
  "deleteBreedingRecord 51 10 example_user example_resolved_db
     = (Inl record_not_found, example_resolved_db)
   \<and> alerts (snd (deleteBreedingRecord 50 10 example_user example_pending_db))
       = [example_alert 61 Breeding Rejected, example_alert 62 Birth Rejected,
          example_alert 63 Birth Completed]
   \<and> map br_is_deleted
        (breeding_records (snd (deleteBreedingRecord 50 10 example_user example_pending_db)))
       = [True]
   \<and> alerts (snd (deleteBreedingRecord 50 10 example_user example_resolved_db)) = []"
proof -
  have 1: "filter (live_record 51 10) (breeding_records example_resolved_db) = []"
    by (simp add: example_resolved_db_def example_db_def example_resolved_record_def
        live_record_def)
  have 2: "filter (live_record 50 10) (breeding_records example_pending_db)
      = [example_open_record]"
    by (simp add: example_pending_db_def example_open_db_def example_db_def
        example_open_record_def live_record_def)
  have 3: "filter (live_record 50 10) (breeding_records example_resolved_db)
      = [example_resolved_record]"
    by (simp add: example_resolved_db_def example_db_def example_resolved_record_def
        live_record_def)
  have "deleteBreedingRecord 51 10 example_user example_resolved_db
     = (Inl record_not_found, example_resolved_db)"
    using deleteBreedingRecord_effect [of 51 10 example_resolved_db example_user] 1 by simp
  moreover have "alerts (snd (deleteBreedingRecord 50 10 example_user example_pending_db))
       = [example_alert 61 Breeding Rejected, example_alert 62 Birth Rejected,
          example_alert 63 Birth Completed]
     \<and> map br_is_deleted
        (breeding_records (snd (deleteBreedingRecord 50 10 example_user example_pending_db)))
       = [True]"
    using deleteBreedingRecord_effect [of 50 10 example_pending_db example_user] 2
    by (simp add: example_pending_db_def example_open_db_def example_db_def
        example_open_record_def example_alert_def live_record_def)
  moreover have "alerts (snd (deleteBreedingRecord 50 10 example_user example_resolved_db)) = []"
    using deleteBreedingRecord_effect [of 50 10 example_resolved_db example_user] 3
    by (simp add: example_resolved_db_def example_db_def example_resolved_record_def)
  ultimately show ?thesis by simp
qed

section \<open>Properties of registering a litter\<close>

lemmas example_litter_defs =
  example_piglet_def example_resolved_db_def example_resolved_record_def example_db_def
  example_pigs_def

lemma example_twins_pass_checks:
  "batch_error [example_piglet ''3'', example_piglet ''3''] 10 example_resolved_db = None"
  by (simp add: batch_error_def example_litter_defs truthy_def breedingResult_def
      breedingRecordIds_def piglet_number_error_def pigletNumbers_def duplicates_def
      parent_error_def parentIds_def missingIds_def foundIds_def)

text \<open>
  Claim C10. The duplicate check reads only the stored rows: on a store with no piglet
  rows, a batch that carries the number 3 twice passes the check (\<open>duplicates\<close> is
  empty), the call succeeds, and both rows are inserted for farm 10 with the same number.
\<close>

theorem duplicate_numbers_in_one_batch:
  "piglet_records example_resolved_db = []
   \<and> duplicates [example_piglet ''3'', example_piglet ''3''] 10 example_resolved_db = []
   \<and> fst (createPigletRecord [example_piglet ''3'', example_piglet ''3''] 10 example_user 0
            example_resolved_db)
      = Success [Num 2, Lit '' piglets created successfully''] [(101, ''3''), (102, ''3'')]
   \<and> map (\<lambda>k. (pl_farm_id k, pl_piglet_number k, pl_is_deleted k))
        (piglet_records (snd (createPigletRecord [example_piglet ''3'', example_piglet ''3''] 10
                                example_user 0 example_resolved_db)))
      = [(10, ''3'', False), (10, ''3'', False)]"
  by (simp add: createPigletRecord_def example_twins_pass_checks)
     (simp add: example_litter_defs truthy_def breedingResult_def breedingRecordIds_def
        duplicates_def pigletNumbers_def ensure_birth_history_def insert_piglet_def or_null_def
        truthy_num_def createAlert_def)









lemma is_failure_failure_of: "is_failure (failure_of e)"
  by (simp add: failure_of_def Let_def)

lemma required_fields_error_iff:
  "required_fields_error ps = None \<longleftrightarrow>
     list_all (\<lambda>q. pi_breeding_record_id q \<noteq> None \<and> truthy (pi_piglet_number q)) ps"
  by (induction ps) auto








lemma insert_loop_mismatch:
  assumes "p \<in> set ps"
    and "\<forall>r\<in>set rows. Some (br_id r) = pi_breeding_record_id p \<longrightarrow>
           Some (br_sow_id r) \<noteq> pi_parent_female_id p"
  shows "fst (insert_loop ps all rows farm ins s) \<noteq> None"
  using assms(1)
proof (induction ps arbitrary: ins s)
  case Nil
  then show ?case by simp
next
  case (Cons q ps)
  show ?case
  proof (cases "q = p")
    case True
    show ?thesis
    proof (cases "find (\<lambda>row. Some (br_id row) = pi_breeding_record_id p) rows")
      case None
      with True show ?thesis by simp
    next
      case (Some b)
      then have "b \<in> set rows" "Some (br_id b) = pi_breeding_record_id p"
        by (auto simp: find_Some_iff)
      with assms(2) have "Some (br_sow_id b) \<noteq> pi_parent_female_id p" by blast
      with True Some show ?thesis by simp
    qed
  next
    case False
    with Cons.prems have "p \<in> set ps" by simp
    from Cons.IH [OF this] show ?thesis
      by (auto split: option.splits sum.splits prod.splits)
  qed
qed

text \<open>
  Claim C9. If the batch has an entry whose \<^verbatim>\<open>parent_female_id\<close> is missing or differs
  from the sow of every live record of the farm with the entry's \<^verbatim>\<open>breeding_record_id\<close>,
  the call fails. The required-field check itself asks only for \<^verbatim>\<open>breeding_record_id\<close>
  and \<^verbatim>\<open>piglet_number\<close>.
\<close>

theorem registerLitter_requires_sow_match:
  assumes "p \<in> set pigletz"
    and "\<forall>r\<in>set (breeding_records s).
           Some (br_id r) = pi_breeding_record_id p \<and> br_farm_id r = farm_id \<and> \<not> br_is_deleted r
           \<longrightarrow> Some (br_sow_id r) \<noteq> pi_parent_female_id p"
  shows "is_failure (fst (createPigletRecord pigletz farm_id userId now s))
     \<and> (required_fields_error pigletz = None \<longleftrightarrow>
          list_all (\<lambda>q. pi_breeding_record_id q \<noteq> None \<and> truthy (pi_piglet_number q)) pigletz)"
proof -
  have rows: "\<forall>r\<in>set (breedingResult pigletz farm_id s).
      Some (br_id r) = pi_breeding_record_id p \<longrightarrow> Some (br_sow_id r) \<noteq> pi_parent_female_id p"
    using assms(2) by (simp add: breedingResult_def)
  have "is_failure (fst (createPigletRecord pigletz farm_id userId now s))"
  proof (cases "batch_error pigletz farm_id s")
    case (Some e)
    then show ?thesis by (simp add: createPigletRecord_def is_failure_failure_of)
  next
    case None
    from insert_loop_mismatch [OF assms(1) rows]
    have "fst (insert_loop pigletz pigletz (breedingResult pigletz farm_id s) farm_id [] s)
            \<noteq> None" .
    with None show ?thesis
      by (auto simp: createPigletRecord_def is_failure_failure_of split: prod.splits)
  qed
  then show ?thesis by (simp add: required_fields_error_iff)
qed

theorem registerLitter_requires_sow_match_witness:
  "is_failure (fst (createPigletRecord example_orphan_batch 10 example_user 0
                      example_resolved_db))
   \<and> required_fields_error example_orphan_batch = None"
proof -
  have p: "(example_piglet ''2'')\<lparr>pi_parent_female_id := None\<rparr> \<in> set example_orphan_batch"
    by (simp add: example_orphan_batch_def)
  have r: "\<forall>r\<in>set (breeding_records example_resolved_db).
           Some (br_id r) = pi_breeding_record_id ((example_piglet ''2'')\<lparr>pi_parent_female_id := None\<rparr>)
             \<and> br_farm_id r = 10 \<and> \<not> br_is_deleted r
           \<longrightarrow> Some (br_sow_id r) \<noteq> pi_parent_female_id ((example_piglet ''2'')\<lparr>pi_parent_female_id := None\<rparr>)"
    by (simp add: example_resolved_db_def example_db_def)
  from registerLitter_requires_sow_match [OF p r, of example_user 0]
  show ?thesis
    by (simp add: example_orphan_batch_def example_piglet_def truthy_def)
qed


end
